theory Spec2Isabelle
  imports Complex_Main
begin

section \<open>The string primitives of Python that app.py calls\<close>

text \<open>
  A review text is a Python \<open>str\<close>, a sequence of code points. It is modelled as a
  \<open>string\<close> in which every \<open>char\<close> stands for one code point below 256, so that
  \<open>length\<close> counts what Python's \<open>len\<close> counts on such a text.
\<close>

definition isspace :: "char \<Rightarrow> bool" where
  \<comment> \<open>the code points below 256 that \<open>str.split()\<close> treats as whitespace\<close>
  "isspace c = ((of_char c :: nat) \<in> {9, 10, 11, 12, 13, 28, 29, 30, 31, 32, 133, 160})"

definition lower_char :: "char \<Rightarrow> char" where
  \<comment> \<open>\<open>str.lower()\<close> on one code point below 256: A-Z and the accented capitals but the
      multiplication sign move up by 32\<close>
  "lower_char c =
     (let n = (of_char c :: nat)
      in if (65 \<le> n \<and> n \<le> 90) \<or> (192 \<le> n \<and> n \<le> 222 \<and> n \<noteq> 215)
         then char_of (n + 32) else c)"

definition str_lower :: "string \<Rightarrow> string" where
  "str_lower s = map lower_char s"

function str_count :: "string \<Rightarrow> string \<Rightarrow> nat" where
  \<comment> \<open>\<open>s.count(sub)\<close>: the occurrences of \<open>sub\<close> met scanning from the left, the scan resuming
      after each occurrence (so occurrences never overlap)\<close>
  "str_count s sub =
     (if sub = [] then length s + 1
      else if length s < length sub then 0
      else if take (length sub) s = sub then 1 + str_count (drop (length sub) s) sub
      else str_count (tl s) sub)"
  by pat_completeness auto
termination
proof (relation "measure (\<lambda>(s, sub). length s)")
  show "wf (measure (\<lambda>(s, sub). length s))" by simp
next
  fix s sub :: string
  assume sub: "sub \<noteq> []" and len: "\<not> length s < length sub"
  from sub have "0 < length sub" by simp
  moreover from this len have "0 < length s" by linarith
  ultimately have "length s - length sub < length s" by (rule diff_less)
  then show "((drop (length sub) s, sub), (s, sub)) \<in> measure (\<lambda>(s, sub). length s)"
    by simp
next
  fix s sub :: string
  assume sub: "sub \<noteq> []" and len: "\<not> length s < length sub"
  from sub have "0 < length sub" by simp
  with len have "0 < length s" by linarith
  then show "((tl s, sub), (s, sub)) \<in> measure (\<lambda>(s, sub). length s)"
    by simp
qed

declare str_count.simps [simp del]

fun split_from :: "string \<Rightarrow> string \<Rightarrow> string list" where
  \<comment> \<open>the scan of \<open>str.split()\<close>: \<open>cur\<close> is the token being read\<close>
  "split_from cur [] = (if cur = [] then [] else [cur])"
| "split_from cur (c # cs) =
     (if isspace c then (if cur = [] then split_from [] cs else cur # split_from [] cs)
      else split_from (cur @ [c]) cs)"

definition str_split :: "string \<Rightarrow> string list" where
  "str_split s = split_from [] s"

section \<open>analyze_text\<close>

record text_analysis =
  generic_phrase_count :: int
  exclamation_count :: int
  word_count :: int
  sentiment :: real
  credibility_score :: int

definition generic_keywords :: "string list" where
  "generic_keywords = [''best product ever'', ''highly recommend'', ''excellent'', ''love it'']"

definition score_step :: "int \<Rightarrow> int \<Rightarrow> int \<Rightarrow> real \<Rightarrow> int" where
  \<comment> \<open>step 5 of \<open>analyze_text\<close> (app.py, lines 59-70): the score starts at 10, each test
      may lower it, and the result is \<open>max(score, 1)\<close>\<close>
  "score_step generic_count exclam_count wcount compound =
     (let score = 10;
          score = (if generic_count > 0 then score - generic_count else score);
          score = (if exclam_count > 2 then score - (exclam_count - 2) else score);
          score = (if wcount < 5 then score - 3 else score);
          score = (if \<bar>compound\<bar> > 0.8 then score - 2 else score)
      in max score 1)"

definition analyze_text :: "(string \<Rightarrow> real) \<Rightarrow> string \<Rightarrow> text_analysis" where
  \<comment> \<open>\<open>sia\<close> is the compound polarity that the VADER analyzer returns for a text: a library
      of its own, taken as a parameter\<close>
  "analyze_text sia text =
     (let generic_count =
            sum_list (map (\<lambda>phrase. int (str_count (str_lower text) phrase)) generic_keywords);
          exclam_count = int (str_count text ''!'');
          wcount = int (length (str_split text));
          compound = sia text
      in \<lparr>generic_phrase_count = generic_count,
          exclamation_count = exclam_count,
          word_count = wcount,
          sentiment = compound,
          credibility_score = score_step generic_count exclam_count wcount compound\<rparr>)"

definition const_sia :: "real \<Rightarrow> string \<Rightarrow> real" where
  \<comment> \<open>an analyzer that returns the same compound polarity for every text\<close>
  "const_sia v text = v"

section \<open>The reviews table\<close>

text \<open>
  A row of the table \<open>reviews\<close>. The form fields come from \<open>request.form.get\<close>, which
  returns \<open>None\<close> for an absent field, stored as NULL: both text columns are options.
  The column \<open>timestamp\<close> holds the text \<open>YYYY-MM-DD HH:MM:SS\<close> that SQLite's
  CURRENT_TIMESTAMP writes; it is modelled by the number of whole seconds it denotes,
  whose order is the order in which SQLite compares two such texts.
\<close>

record review =
  review_id :: int
  user_id :: "string option"
  review_text :: "string option"
  timestamp :: int

type_synonym store = "review list"

datatype error =
  OperationalError  \<comment> \<open>raised by sqlite3 when the database cannot be opened, read or written\<close>
| AttributeError    \<comment> \<open>raised by \<open>review_text.lower()\<close> when \<open>review_text\<close> is \<open>None\<close>\<close>

definition next_id :: "store \<Rightarrow> int" where
  \<comment> \<open>INTEGER PRIMARY KEY: one more than the largest id in the table\<close>
  "next_id db = fold max (map review_id db) 0 + 1"

definition insert_review ::
  "bool \<Rightarrow> int \<Rightarrow> string option \<Rightarrow> string option \<Rightarrow> store \<Rightarrow> error + store" where
  \<comment> \<open>connect, INSERT INTO reviews (user_id, review_text), commit, close. \<open>reachable\<close> says
      whether the database answers; \<open>current_timestamp\<close> is the column's default\<close>
  "insert_review reachable current_timestamp uid text db =
     (if reachable
      then Inr (db @ [\<lparr>review_id = next_id db, user_id = uid, review_text = text,
                       timestamp = current_timestamp\<rparr>])
      else Inl OperationalError)"

definition sql_eq :: "string option \<Rightarrow> string option \<Rightarrow> bool" where
  \<comment> \<open>\<open>user_id=?\<close> in a WHERE clause: a comparison with NULL is never true\<close>
  "sql_eq a b = (case a of None \<Rightarrow> False | Some x \<Rightarrow> (case b of None \<Rightarrow> False | Some y \<Rightarrow> x = y))"

fun count_rows :: "store \<Rightarrow> string option \<Rightarrow> int \<Rightarrow> int" where
  \<comment> \<open>SELECT COUNT(*) FROM reviews WHERE user_id=? AND timestamp>=?\<close>
  "count_rows [] uid since = 0"
| "count_rows (r # rs) uid since =
     (if sql_eq (user_id r) uid \<and> timestamp r \<ge> since then 1 else 0) + count_rows rs uid since"

definition select_count :: "bool \<Rightarrow> store \<Rightarrow> string option \<Rightarrow> int \<Rightarrow> error + int" where
  "select_count reachable db uid since =
     (if reachable then Inr (count_rows db uid since) else Inl OperationalError)"

section \<open>Clocks\<close>

text \<open>
  A \<open>datetime\<close> of Python is modelled by its count of microseconds. \<open>strftime\<close> with the
  format \<open>%Y-%m-%d %H:%M:%S\<close> leaves the microsecond field out; its text is modelled, as
  the column \<open>timestamp\<close> is, by the whole seconds it denotes.
\<close>

type_synonym datetime = int

definition timedelta_hours :: "int \<Rightarrow> int" where
  "timedelta_hours h = h * 3600000000"

definition strftime :: "datetime \<Rightarrow> int" where
  "strftime d = d div 1000000"

definition sqlite_current_timestamp :: "int \<Rightarrow> int" where
  \<comment> \<open>CURRENT_TIMESTAMP at the instant \<open>utc\<close> (microseconds of UTC): SQLite writes the UTC
      date and time, to the second\<close>
  "sqlite_current_timestamp utc = utc div 1000000"

definition datetime_now :: "int \<Rightarrow> int \<Rightarrow> datetime" where
  \<comment> \<open>\<open>datetime.datetime.now()\<close> at the instant \<open>utc\<close> on a server whose local time is
      \<open>tz_offset\<close> seconds ahead of UTC: the naive local date and time\<close>
  "datetime_now tz_offset utc = utc + tz_offset * 1000000"

section \<open>analyze_user, is_fake and submit_review\<close>

definition analyze_user :: "bool \<Rightarrow> datetime \<Rightarrow> store \<Rightarrow> string option \<Rightarrow> error + int" where
  \<comment> \<open>\<open>now\<close> is what \<open>datetime.datetime.now()\<close> returns; \<open>reachable\<close> says whether the
      database answers the query\<close>
  "analyze_user reachable now db uid =
     (let penalty = 0;
          one_hour_ago = now - timedelta_hours 1;
          time_str = strftime one_hour_ago
      in case select_count reachable db uid time_str of
           Inl e \<Rightarrow> Inl e
         | Inr count \<Rightarrow> Inr (if count > 5 then count - 5 else penalty))"

definition is_fake :: "int \<Rightarrow> int option \<Rightarrow> bool" where
  \<comment> \<open>\<open>is_fake(credibility_score, threshold=6)\<close>: \<open>None\<close> is the call that leaves the
      threshold out\<close>
  "is_fake score threshold =
     (score < (case threshold of None \<Rightarrow> 6 | Some t \<Rightarrow> t))"

definition combine :: "int \<Rightarrow> int \<Rightarrow> int" where
  \<comment> \<open>app.py, lines 120-121: the two assignments to \<open>overall_score\<close>\<close>
  "combine score user_penalty =
     (let overall = score - user_penalty;
          overall = max overall 1
      in overall)"

record form =
  form_user_id :: "string option"
  form_review_text :: "string option"

record env =
  env_sia :: "string \<Rightarrow> real"   \<comment> \<open>the VADER analyzer\<close>
  env_current_timestamp :: int  \<comment> \<open>what CURRENT_TIMESTAMP gives the inserted row\<close>
  env_now :: datetime            \<comment> \<open>what \<open>datetime.datetime.now()\<close> returns in \<open>analyze_user\<close>\<close>
  insert_ok :: bool              \<comment> \<open>the database answers the INSERT\<close>
  select_ok :: bool              \<comment> \<open>the database answers the SELECT\<close>

record response =
  analysis :: text_analysis
  user_penalty :: int
  overall_score :: int
  verdict :: bool

definition submit_review :: "env \<Rightarrow> form \<Rightarrow> store \<Rightarrow> store \<times> (error + response)" where
  \<comment> \<open>the handler of POST /submit_review: the table after the request, and what the
      template is rendered with, or the exception that leaves the handler\<close>
  "submit_review e frm db =
     (let uid = form_user_id frm;
          text = form_review_text frm
      in case insert_review (insert_ok e) (env_current_timestamp e) uid text db of
           Inl err \<Rightarrow> (db, Inl err)
         | Inr db' \<Rightarrow>
             (case text of
                None \<Rightarrow> (db', Inl AttributeError)
              | Some t \<Rightarrow>
                  (let ta = analyze_text (env_sia e) t
                   in case analyze_user (select_ok e) (env_now e) db' uid of
                        Inl err \<Rightarrow> (db', Inl err)
                      | Inr penalty \<Rightarrow>
                          (let overall = combine (credibility_score ta) penalty;
                               v = is_fake overall None
                           in (db', Inr \<lparr>analysis = ta, user_penalty = penalty,
                                         overall_score = overall, verdict = v\<rparr>)))))"

section \<open>The specification's reading of the frequency count\<close>

text \<open>
  The specification (4.3) counts the reviews by exactly the given user with
  \<open>timestamp \<ge> now - 1 hour\<close>, the bound included, where \<open>now\<close> is the current time.
  The rows are stamped on the UTC scale, so the current time is taken on that scale:
  \<open>utc\<close> is the current instant in microseconds of UTC, and a timestamp is a whole
  second of UTC.
\<close>

definition recent_reviews_by :: "store \<Rightarrow> string \<Rightarrow> int \<Rightarrow> review list" where
  "recent_reviews_by db u utc =
     filter (\<lambda>r. user_id r = Some u \<and> utc - timedelta_hours 1 \<le> timestamp r * 1000000) db"

definition spec_penalty :: "store \<Rightarrow> string \<Rightarrow> int \<Rightarrow> int" where
  \<comment> \<open>specification, 4.3: the count minus 5 when the count exceeds 5, and 0 otherwise\<close>
  "spec_penalty db u utc =
     (let count = int (length (recent_reviews_by db u utc))
      in if count > 5 then count - 5 else 0)"

section \<open>Servers, forms and tables to run the handler on\<close>

definition server :: "int \<Rightarrow> int \<Rightarrow> int \<Rightarrow> env" where
  \<comment> \<open>a server \<open>tz_offset\<close> seconds ahead of UTC whose database answers, whose analyzer finds
      every text neutral, and that runs the INSERT at the instant \<open>utc_insert\<close> and reads the
      clock in \<open>analyze_user\<close> at the instant \<open>utc_query\<close>\<close>
  "server tz_offset utc_insert utc_query =
     \<lparr>env_sia = const_sia 0,
      env_current_timestamp = sqlite_current_timestamp utc_insert,
      env_now = datetime_now tz_offset utc_query,
      insert_ok = True, select_ok = True\<rparr>"

definition bob_form :: "string \<Rightarrow> form" where
  "bob_form text = \<lparr>form_user_id = Some ''bob'', form_review_text = Some text\<rparr>"

definition bob_row :: "int \<Rightarrow> int \<Rightarrow> review" where
  "bob_row i ts =
     \<lparr>review_id = i, user_id = Some ''bob'', review_text = Some ''fine'', timestamp = ts\<rparr>"

definition five_recent :: store where
  \<comment> \<open>read at the second 1000000: five rows of bob in the last hour (one of them exactly an
      hour old), one older row of his, one row of Bob and one row without a user\<close>
  "five_recent =
     [bob_row 1 996399, bob_row 2 996400, bob_row 3 996401, bob_row 4 998000,
      \<lparr>review_id = 5, user_id = Some ''Bob'', review_text = Some ''fine'', timestamp = 999000\<rparr>,
      \<lparr>review_id = 6, user_id = None, review_text = Some ''fine'', timestamp = 999000\<rparr>,
      bob_row 7 999999, bob_row 8 1000000]"

definition six_recent :: store where
  "six_recent = five_recent @ [bob_row 9 1000000]"

section \<open>Facts about the scoring step\<close>

lemma score_step_unfold:
  "score_step g x w s =
     max (10 - (if g > 0 then g else 0) - (if x > 2 then x - 2 else 0)
             - (if w < 5 then 3 else 0) - (if \<bar>s\<bar> > 0.8 then 2 else 0)) 1"
  by (auto simp add: score_step_def Let_def)

lemma score_step_ge_1: "1 \<le> score_step g x w s"
  by (simp add: score_step_unfold)

lemma score_step_le_10: "0 \<le> g \<Longrightarrow> 0 \<le> x \<Longrightarrow> score_step g x w s \<le> 10"
  by (simp add: score_step_unfold)

lemma credibility_score_analyze_text:
  "credibility_score (analyze_text sia text) =
     score_step (generic_phrase_count (analyze_text sia text))
       (exclamation_count (analyze_text sia text))
       (word_count (analyze_text sia text))
       (sentiment (analyze_text sia text))"
  by (simp add: analyze_text_def Let_def)

lemma generic_count_nonneg: "0 \<le> generic_phrase_count (analyze_text sia text)"
  by (auto simp add: analyze_text_def Let_def intro!: sum_list_nonneg)

lemma exclam_count_nonneg: "0 \<le> exclamation_count (analyze_text sia text)"
  by (simp add: analyze_text_def Let_def)

lemma credibility_score_range:
  "1 \<le> credibility_score (analyze_text sia text) \<and> credibility_score (analyze_text sia text) \<le> 10"
  unfolding credibility_score_analyze_text
  by (simp add: score_step_ge_1 score_step_le_10 generic_count_nonneg exclam_count_nonneg)

text \<open>
  Claim C1. For signals \<open>generic_phrase_count \<ge> 0\<close>, \<open>exclamation_count \<ge> 0\<close>,
  \<open>word_count \<ge> 0\<close> and a sentiment in \<open>[-1, 1]\<close>, the scoring step of \<open>analyze_text\<close>
  returns 10 minus the generic phrase count (when positive), minus the exclamation
  marks beyond two, minus 3 for fewer than five words, minus 2 for a sentiment of
  magnitude above 0.8, clamped from below at 1 and by nothing from above; the result
  lies in \<open>[1, 10]\<close>. The compound polarity, a float in the program, is a real here,
  and the float 0.8 is the real 4/5. The score that \<open>analyze_text\<close> returns is this step
  applied to the signals it returns.
\<close>

theorem credibility_scorer_formula:
  assumes "0 \<le> g" and "0 \<le> x" and "0 \<le> w" and "-1 \<le> s" and "s \<le> 1"
  shows "score_step g x w s =
           max (10 - (if g > 0 then g else 0) - (if x > 2 then x - 2 else 0)
                   - (if w < 5 then 3 else 0) - (if \<bar>s\<bar> > 0.8 then 2 else 0)) 1
         \<and> 1 \<le> score_step g x w s \<and> score_step g x w s \<le> 10
         \<and> credibility_score (analyze_text sia body) =
             score_step (generic_phrase_count (analyze_text sia body))
               (exclamation_count (analyze_text sia body))
               (word_count (analyze_text sia body))
               (sentiment (analyze_text sia body))"
  using assms score_step_unfold [of g x w s] score_step_ge_1 [of g x w s]
    score_step_le_10 [of g x w s] credibility_score_analyze_text [of sia body] by simp

theorem credibility_scorer_formula_witness:
  "(0::int) \<le> 3 \<and> (0::int) \<le> 5 \<and> (0::int) \<le> 4 \<and> (-1::real) \<le> 0.9 \<and> (0.9::real) \<le> 1
   \<and> score_step 3 5 4 0.9 = 1 \<and> score_step 0 0 8 0.5 = 10 \<and> score_step 1 3 4 (-0.9) = 3"
  using credibility_scorer_formula [of 3 5 4 "0.9"] credibility_scorer_formula [of 0 0 8 "0.5"]
    credibility_scorer_formula [of 1 3 4 "-0.9"] by simp

section \<open>The two texts of the scenarios\<close>

lemma str_count_Nil: "sub \<noteq> [] \<Longrightarrow> str_count [] sub = 0"
  by (simp add: str_count.simps)

lemma signals_empty:
  "sum_list (map (\<lambda>phrase. int (str_count (str_lower []) phrase)) generic_keywords) = 0"
  "str_count [] ''!'' = 0"
  "str_split [] = []"
  by (simp_all add: generic_keywords_def str_lower_def str_split_def str_count_Nil)

lemma signals_excellent:
  "sum_list (map (\<lambda>phrase. int (str_count (str_lower ''Excellent! Excellent! Love it!!!'') phrase))
     generic_keywords) = 3"
  "int (str_count ''Excellent! Excellent! Love it!!!'' ''!'') = 5"
  "int (length (str_split ''Excellent! Excellent! Love it!!!'')) = 4"
  by code_simp+

text \<open>
  Claim C6, as amended. The text \<open>Excellent! Excellent! Love it!!!\<close> holds the phrase
  \<open>excellent\<close> twice and \<open>love it\<close> once, and five exclamation marks in four words:
  \<open>generic_phrase_count = 3\<close>, \<open>exclamation_count = 5\<close>, \<open>word_count = 4\<close>, and the score
  is 1 whatever the analyzer says of the sentiment, since \<open>10 - 3 - (5 - 2) - 3 = 1\<close>
  and the clamp absorbs the sentiment penalty.
\<close>

theorem scenario_excellent_signals:
  "analyze_text sia ''Excellent! Excellent! Love it!!!'' =
    \<lparr>generic_phrase_count = 3, exclamation_count = 5, word_count = 4,
     sentiment = sia ''Excellent! Excellent! Love it!!!'', credibility_score = 1\<rparr>"
  by (simp add: analyze_text_def Let_def signals_excellent score_step_unfold)

text \<open>
  Claim C6 as the specification has it (counts 2, 4, 4 and score 3) does not hold of
  \<open>analyze_text\<close>; here with an analyzer that reports a neutral sentiment.
\<close>

theorem scenario_excellent_counterexample:
  "\<not> (generic_phrase_count (analyze_text (const_sia 0) ''Excellent! Excellent! Love it!!!'') = 2
      \<and> exclamation_count (analyze_text (const_sia 0) ''Excellent! Excellent! Love it!!!'') = 4
      \<and> word_count (analyze_text (const_sia 0) ''Excellent! Excellent! Love it!!!'') = 4
      \<and> credibility_score (analyze_text (const_sia 0) ''Excellent! Excellent! Love it!!!'') = 3)"
  by (simp add: analyze_text_def Let_def signals_excellent)

text \<open>
  Claim C9. For the empty text the three counts are 0, and when the analyzer's
  sentiment for it is not extreme (magnitude at most 0.8, as a neutral one is) the
  score is \<open>10 - 3 = 7\<close>.
\<close>

theorem scenario_empty_text:
  assumes "\<bar>sia ''''\<bar> \<le> 0.8"
  shows "analyze_text sia '''' =
    \<lparr>generic_phrase_count = 0, exclamation_count = 0, word_count = 0,
     sentiment = sia '''', credibility_score = 7\<rparr>"
  using assms by (simp add: analyze_text_def Let_def signals_empty score_step_unfold)

theorem scenario_empty_text_witness:
  "\<bar>const_sia 0 ''''\<bar> \<le> 0.8 \<and> analyze_text (const_sia 0) '''' =
    \<lparr>generic_phrase_count = 0, exclamation_count = 0, word_count = 0,
     sentiment = 0, credibility_score = 7\<rparr>"
  using scenario_empty_text [of "const_sia 0"] by (simp add: const_sia_def)

section \<open>analyze_user\<close>

lemma count_rows_filter:
  "count_rows db (Some u) since =
     int (length (filter (\<lambda>r. user_id r = Some u \<and> since \<le> timestamp r) db))"
  by (induction db) (auto simp add: sql_eq_def split: option.splits)

lemma count_rows_append:
  "count_rows (db @ [r]) uid since =
     count_rows db uid since + (if sql_eq (user_id r) uid \<and> since \<le> timestamp r then 1 else 0)"
  by (induction db) simp_all

lemma analyze_user_reachable:
  "analyze_user True now db uid =
     Inr (if count_rows db uid (strftime (now - timedelta_hours 1)) > 5
          then count_rows db uid (strftime (now - timedelta_hours 1)) - 5 else 0)"
  by (simp add: analyze_user_def select_count_def Let_def)

lemma analyze_user_unreachable: "analyze_user False now db uid = Inl OperationalError"
  by (simp add: analyze_user_def select_count_def Let_def)

text \<open>
  What the query counts: the rows of exactly that user whose timestamp is at or after
  the text that \<open>strftime\<close> makes of \<open>datetime.datetime.now()\<close> minus one hour.
\<close>

lemma analyze_user_code_window:
  "analyze_user True now db (Some u) =
     Inr (if int (length (filter (\<lambda>r. user_id r = Some u
                                    \<and> strftime (now - timedelta_hours 1) \<le> timestamp r) db)) > 5
          then int (length (filter (\<lambda>r. user_id r = Some u
                                    \<and> strftime (now - timedelta_hours 1) \<le> timestamp r) db)) - 5
          else 0)"
  by (simp add: analyze_user_reachable count_rows_filter)

text \<open>
  On a server whose local time is UTC, read at a whole second, that window is the
  trailing hour of the specification and the penalty is the specification's.
\<close>

lemma bound_at_whole_second:
  "strftime (datetime_now 0 (k * 1000000) - timedelta_hours 1) \<le> ts
     \<longleftrightarrow> k * 1000000 - timedelta_hours 1 \<le> ts * 1000000"
proof -
  have "k * 1000000 - 3600000000 = (k - 3600) * (1000000::int)" by (simp add: algebra_simps)
  then have "(k * 1000000 - 3600000000) div (1000000::int) = k - 3600" by simp
  moreover have "(k - 3600 \<le> ts) \<longleftrightarrow> (k * 1000000 - 3600000000 \<le> ts * 1000000)"
    by auto
  ultimately show ?thesis
    by (simp add: strftime_def datetime_now_def timedelta_hours_def)
qed

lemma analyze_user_on_utc_server:
  "analyze_user True (datetime_now 0 (k * 1000000)) db (Some u) =
     Inr (spec_penalty db u (k * 1000000))"
  by (simp add: analyze_user_code_window spec_penalty_def recent_reviews_by_def
      bound_at_whole_second Let_def)

lemma recent_five: "length (recent_reviews_by five_recent ''bob'' 1000000000000) = 5"
  by (simp add: recent_reviews_by_def timedelta_hours_def five_recent_def bob_row_def)

lemma recent_six: "length (recent_reviews_by six_recent ''bob'' 1000000000000) = 6"
  by (simp add: recent_reviews_by_def timedelta_hours_def six_recent_def five_recent_def
      bob_row_def)

lemma count_six_ahead: "count_rows six_recent (Some ''bob'') 1003600 = 0"
  by (simp add: six_recent_def five_recent_def bob_row_def sql_eq_def)

lemma count_five_behind: "count_rows five_recent (Some ''bob'') 978400 = 6"
  by (simp add: five_recent_def bob_row_def sql_eq_def)

text \<open>
  Claim C3 fails where the local time of the server is not UTC. The rows are stamped
  by CURRENT_TIMESTAMP with the UTC time, while \<open>analyze_user\<close> takes its bound
  from \<open>datetime.datetime.now()\<close>, the local time. At the UTC second 1000000, six
  reviews of bob lie in the trailing hour: the specification's penalty is 1, and on a
  server two hours ahead of UTC \<open>analyze_user\<close> returns 0. Five reviews of bob lie in
  the trailing hour of the other table: the specification's penalty is 0, and on a
  server five hours behind UTC \<open>analyze_user\<close> counts his older review too and
  returns 1.
\<close>

theorem analyze_user_window_off_utc:
  "length (recent_reviews_by six_recent ''bob'' 1000000000000) = 6
   \<and> spec_penalty six_recent ''bob'' 1000000000000 = 1
   \<and> analyze_user True (datetime_now 7200 1000000000000) six_recent (Some ''bob'') = Inr 0
   \<and> length (recent_reviews_by five_recent ''bob'' 1000000000000) = 5
   \<and> spec_penalty five_recent ''bob'' 1000000000000 = 0
   \<and> analyze_user True (datetime_now (- 18000) 1000000000000) five_recent (Some ''bob'') = Inr 1"
  by (simp add: spec_penalty_def recent_five recent_six analyze_user_reachable
      count_six_ahead count_five_behind strftime_def datetime_now_def timedelta_hours_def)

section \<open>submit_review\<close>

lemma combine_unfold: "combine c p = max (c - p) 1"
  by (simp add: combine_def Let_def)

lemma combine_ge_1: "1 \<le> combine c p"
  by (simp add: combine_unfold)

lemma submit_review_ok:
  "submit_review e frm db =
     (if \<not> insert_ok e then (db, Inl OperationalError)
      else let db' = db @ [\<lparr>review_id = next_id db, user_id = form_user_id frm,
                              review_text = form_review_text frm,
                              timestamp = env_current_timestamp e\<rparr>]
           in case form_review_text frm of
                None \<Rightarrow> (db', Inl AttributeError)
              | Some t \<Rightarrow>
                  if \<not> select_ok e then (db', Inl OperationalError)
                  else let ta = analyze_text (env_sia e) t;
                           p = (if count_rows db' (form_user_id frm)
                                     (strftime (env_now e - timedelta_hours 1)) > 5
                                then count_rows db' (form_user_id frm)
                                       (strftime (env_now e - timedelta_hours 1)) - 5
                                else 0)
                       in (db', Inr \<lparr>analysis = ta, user_penalty = p,
                                     overall_score = max (credibility_score ta - p) 1,
                                     verdict = (max (credibility_score ta - p) 1 < 6)\<rparr>))"
  by (simp add: submit_review_def insert_review_def analyze_user_def select_count_def
      combine_def is_fake_def Let_def split: option.split)

lemma submit_review_Inr:
  assumes "snd (submit_review e frm db) = Inr r"
  shows "overall_score r = max (credibility_score (analysis r) - user_penalty r) 1"
    and "verdict r = (overall_score r < 6)"
    and "0 \<le> user_penalty r"
    and "1 \<le> credibility_score (analysis r)"
    and "credibility_score (analysis r) \<le> 10"
    and "insert_ok e" and "select_ok e"
  using assms credibility_score_range
  by (auto simp add: submit_review_ok Let_def split: if_splits option.splits)

lemma fst_submit_review:
  "insert_ok e \<Longrightarrow>
   fst (submit_review e frm db) =
     db @ [\<lparr>review_id = next_id db, user_id = form_user_id frm,
            review_text = form_review_text frm, timestamp = env_current_timestamp e\<rparr>]"
  by (simp add: submit_review_ok Let_def split: option.split)

subsection \<open>Three runs of the handler\<close>

lemma signals_works:
  "sum_list (map (\<lambda>phrase. int (str_count (str_lower ''Works as expected, arrived on time, good value.'') phrase))
     generic_keywords) = 0"
  "int (str_count ''Works as expected, arrived on time, good value.'' ''!'') = 0"
  "int (length (str_split ''Works as expected, arrived on time, good value.'')) = 8"
  by code_simp+

lemma analysis_works:
  "analyze_text (const_sia 0) ''Works as expected, arrived on time, good value.'' =
     \<lparr>generic_phrase_count = 0, exclamation_count = 0, word_count = 8, sentiment = 0,
      credibility_score = 10\<rparr>"
  by (simp add: analyze_text_def Let_def signals_works score_step_unfold const_sia_def)

lemma analysis_excellent:
  "analyze_text (const_sia 0) ''Excellent! Excellent! Love it!!!'' =
     \<lparr>generic_phrase_count = 3, exclamation_count = 5, word_count = 4, sentiment = 0,
      credibility_score = 1\<rparr>"
  by (simp add: analyze_text_def Let_def signals_excellent score_step_unfold const_sia_def)

lemma count_five_utc: "count_rows five_recent (Some ''bob'') 996400 = 5"
  by (simp add: five_recent_def bob_row_def sql_eq_def)

lemma count_five_ahead: "count_rows five_recent (Some ''bob'') 1003600 = 0"
  by (simp add: five_recent_def bob_row_def sql_eq_def)

lemma count_six_utc: "count_rows six_recent (Some ''bob'') 996400 = 6"
  by (simp add: six_recent_def count_rows_append count_five_utc bob_row_def sql_eq_def)

text \<open>
  On a server whose local time is UTC, bob's sixth review within the hour: the count
  is 6 and the penalty 1.
\<close>

lemma run_sixth_on_utc_server:
  "snd (submit_review (server 0 1000000200000 1000000500000)
          (bob_form ''Works as expected, arrived on time, good value.'') five_recent) =
     Inr \<lparr>analysis = \<lparr>generic_phrase_count = 0, exclamation_count = 0, word_count = 8,
                      sentiment = 0, credibility_score = 10\<rparr>,
          user_penalty = 1, overall_score = 9, verdict = False\<rparr>"
  by (simp add: submit_review_ok Let_def server_def bob_form_def analysis_works
      count_rows_append count_five_utc sql_eq_def
      strftime_def datetime_now_def sqlite_current_timestamp_def timedelta_hours_def)

text \<open>The same request on a server two hours ahead of UTC: the penalty is 0.\<close>

lemma run_sixth_ahead_of_utc:
  "snd (submit_review (server 7200 1000000200000 1000000500000)
          (bob_form ''Works as expected, arrived on time, good value.'') five_recent) =
     Inr \<lparr>analysis = \<lparr>generic_phrase_count = 0, exclamation_count = 0, word_count = 8,
                      sentiment = 0, credibility_score = 10\<rparr>,
          user_penalty = 0, overall_score = 10, verdict = False\<rparr>"
  by (simp add: submit_review_ok Let_def server_def bob_form_def analysis_works
      count_rows_append count_five_ahead sql_eq_def
      strftime_def datetime_now_def sqlite_current_timestamp_def timedelta_hours_def)

text \<open>On the UTC server, a seventh review whose text scores 1: the clamp holds the result at 1.\<close>

lemma run_excellent_on_utc_server:
  "snd (submit_review (server 0 1000000200000 1000000500000)
          (bob_form ''Excellent! Excellent! Love it!!!'') six_recent) =
     Inr \<lparr>analysis = \<lparr>generic_phrase_count = 3, exclamation_count = 5, word_count = 4,
                      sentiment = 0, credibility_score = 1\<rparr>,
          user_penalty = 2, overall_score = 1, verdict = True\<rparr>"
  by (simp add: submit_review_ok Let_def server_def bob_form_def analysis_excellent
      count_rows_append count_six_utc sql_eq_def
      strftime_def datetime_now_def sqlite_current_timestamp_def timedelta_hours_def)

subsection \<open>The verdict\<close>

text \<open>
  Claim C2. \<open>is_fake\<close> holds exactly when the score is strictly below the threshold,
  which is 6 when the call leaves it out: a score of 6 is not fake, a score of 5 is.
  \<open>submit_review\<close> calls it on the overall score with the default threshold.
\<close>

theorem is_fake_strict_threshold:
  "is_fake score None = (score < 6)
   \<and> is_fake score (Some threshold) = (score < threshold)
   \<and> \<not> is_fake 6 None \<and> is_fake 5 None
   \<and> (snd (submit_review e frm db) = Inr r \<longrightarrow> verdict r = (overall_score r < 6))"
  using submit_review_Inr [of e frm db r] by (simp add: is_fake_def)

theorem is_fake_strict_threshold_witness:
  "snd (submit_review (server 0 1000000200000 1000000500000)
          (bob_form ''Works as expected, arrived on time, good value.'') five_recent) =
     Inr \<lparr>analysis = \<lparr>generic_phrase_count = 0, exclamation_count = 0, word_count = 8,
                      sentiment = 0, credibility_score = 10\<rparr>,
          user_penalty = 1, overall_score = 9, verdict = False\<rparr>
   \<and> \<not> is_fake 9 None \<and> \<not> is_fake 6 None \<and> is_fake 5 None
   \<and> is_fake 5 (Some 6) \<and> \<not> is_fake 5 (Some 5)"
  using run_sixth_on_utc_server
    is_fake_strict_threshold [of 9 5 "server 0 1000000200000 1000000500000"
          "bob_form ''Works as expected, arrived on time, good value.''" five_recent]
    is_fake_strict_threshold [of 5 6] is_fake_strict_threshold [of 5 5]
  by simp

subsection \<open>The overall score\<close>

text \<open>
  Claim C4. For a credibility score in \<open>[1, 10]\<close> and a penalty \<open>\<ge> 0\<close> the two
  assignments of \<open>submit_review\<close> compute \<open>max(credibility_score - user_penalty, 1)\<close>;
  and whenever the handler returns, its credibility score is in \<open>[1, 10]\<close>, its penalty
  is \<open>\<ge> 0\<close> and its overall score is that maximum.
\<close>

theorem overall_score_is_clamped_difference:
  "(1 \<le> c \<and> c \<le> 10 \<and> 0 \<le> p \<longrightarrow> combine c p = max (c - p) 1)
   \<and> (snd (submit_review e frm db) = Inr r \<longrightarrow>
        1 \<le> credibility_score (analysis r) \<and> credibility_score (analysis r) \<le> 10
        \<and> 0 \<le> user_penalty r
        \<and> overall_score r = max (credibility_score (analysis r) - user_penalty r) 1)"
  using submit_review_Inr [of e frm db r] by (simp add: combine_unfold)

theorem overall_score_is_clamped_difference_witness:
  "(1::int) \<le> 7 \<and> (7::int) \<le> 10 \<and> (0::int) \<le> 2 \<and> combine 7 2 = 5
   \<and> (1::int) \<le> 3 \<and> (3::int) \<le> 10 \<and> (0::int) \<le> 4 \<and> combine 3 4 = 1
   \<and> snd (submit_review (server 0 1000000200000 1000000500000)
          (bob_form ''Works as expected, arrived on time, good value.'') five_recent) =
        Inr \<lparr>analysis = \<lparr>generic_phrase_count = 0, exclamation_count = 0, word_count = 8,
                         sentiment = 0, credibility_score = 10\<rparr>,
             user_penalty = 1, overall_score = 9, verdict = False\<rparr>"
  using overall_score_is_clamped_difference [of 7 2]
    overall_score_is_clamped_difference [of 3 4]
    overall_score_is_clamped_difference [of 1 0 "server 0 1000000200000 1000000500000"
          "bob_form ''Works as expected, arrived on time, good value.''" five_recent]
    run_sixth_on_utc_server
  by simp

text \<open>
  Claim C5. The credibility score of \<open>analyze_text\<close> and the overall score of
  \<open>submit_review\<close> are at least 1, whatever the signals, the text, the penalty or the
  table.
\<close>

theorem scores_at_least_one:
  "1 \<le> score_step g x w s
   \<and> 1 \<le> credibility_score (analyze_text sia body)
   \<and> 1 \<le> combine c p
   \<and> (snd (submit_review e frm db) = Inr r \<longrightarrow>
        1 \<le> credibility_score (analysis r) \<and> 1 \<le> overall_score r)"
  using submit_review_Inr [of e frm db r] credibility_score_range [of sia body]
  by (simp add: score_step_ge_1 combine_ge_1)

theorem scores_at_least_one_witness:
  "snd (submit_review (server 0 1000000200000 1000000500000)
          (bob_form ''Excellent! Excellent! Love it!!!'') six_recent) =
     Inr \<lparr>analysis = \<lparr>generic_phrase_count = 3, exclamation_count = 5, word_count = 4,
                      sentiment = 0, credibility_score = 1\<rparr>,
          user_penalty = 2, overall_score = 1, verdict = True\<rparr>
   \<and> score_step 20 30 0 1 = 1 \<and> combine 1 50 = 1"
  using run_excellent_on_utc_server
    scores_at_least_one [of 20 30 0 1 "const_sia 0" "[]" 1 50
          "server 0 1000000200000 1000000500000"
          "bob_form ''Excellent! Excellent! Love it!!!''" six_recent]
  by (simp add: score_step_unfold combine_unfold)

text \<open>
  Claim C10. For a credibility score \<open>c \<ge> 1\<close> and a penalty \<open>p \<ge> 0\<close> the overall
  score does not exceed \<open>c\<close>, and a larger penalty never gives a larger overall score.
\<close>

theorem overall_score_bounded_and_antitone:
  "(1 \<le> c \<and> 0 \<le> p \<longrightarrow> combine c p \<le> c)
   \<and> (1 \<le> c \<and> 0 \<le> p \<and> p \<le> q \<longrightarrow> combine c q \<le> combine c p)"
  by (auto simp add: combine_unfold)

theorem overall_score_bounded_and_antitone_witness:
  "(1::int) \<le> 7 \<and> (0::int) \<le> 2 \<and> (2::int) \<le> 4
   \<and> combine 7 2 \<le> 7 \<and> combine 7 4 \<le> combine 7 2 \<and> combine 7 2 = 5 \<and> combine 7 4 = 3"
  using overall_score_bounded_and_antitone [of 7 2 4] by (simp add: combine_unfold)

subsection \<open>A database that does not answer\<close>

text \<open>
  Claim C8. When the database does not answer, \<open>analyze_user\<close> raises (it does not
  return 0), and \<open>submit_review\<close> raises whether it is the INSERT or the SELECT that
  fails: it returns no response in either case.
\<close>

theorem store_failure_propagates:
  "analyze_user False now db uid = Inl OperationalError
   \<and> analyze_user False now db uid \<noteq> Inr 0
   \<and> (\<not> insert_ok e \<longrightarrow> submit_review e frm db = (db, Inl OperationalError))
   \<and> (insert_ok e \<and> \<not> select_ok e \<and> form_review_text frm = Some t \<longrightarrow>
        snd (submit_review e frm db) = Inl OperationalError)
   \<and> (\<not> (insert_ok e \<and> select_ok e) \<longrightarrow> snd (submit_review e frm db) \<noteq> Inr r)"
proof -
  have "snd (submit_review e frm db) = Inr r \<Longrightarrow> insert_ok e \<and> select_ok e"
    using submit_review_Inr [of e frm db r] by simp
  then have "\<not> (insert_ok e \<and> select_ok e) \<longrightarrow> snd (submit_review e frm db) \<noteq> Inr r"
    by blast
  moreover have "\<not> insert_ok e \<longrightarrow> submit_review e frm db = (db, Inl OperationalError)"
    by (simp add: submit_review_ok)
  moreover have "insert_ok e \<and> \<not> select_ok e \<and> form_review_text frm = Some t \<longrightarrow>
      snd (submit_review e frm db) = Inl OperationalError"
    by (simp add: submit_review_ok Let_def)
  ultimately show ?thesis
    by (simp add: analyze_user_unreachable)
qed

theorem store_failure_propagates_witness:
  "\<not> insert_ok ((server 0 1000000200000 1000000500000)\<lparr>insert_ok := False\<rparr>)
   \<and> submit_review ((server 0 1000000200000 1000000500000)\<lparr>insert_ok := False\<rparr>)
        (bob_form ''Excellent! Excellent! Love it!!!'') five_recent =
       (five_recent, Inl OperationalError)
   \<and> insert_ok ((server 0 1000000200000 1000000500000)\<lparr>select_ok := False\<rparr>)
   \<and> \<not> select_ok ((server 0 1000000200000 1000000500000)\<lparr>select_ok := False\<rparr>)
   \<and> form_review_text (bob_form ''Excellent! Excellent! Love it!!!'') =
       Some ''Excellent! Excellent! Love it!!!''
   \<and> snd (submit_review ((server 0 1000000200000 1000000500000)\<lparr>select_ok := False\<rparr>)
        (bob_form ''Excellent! Excellent! Love it!!!'') five_recent) = Inl OperationalError
   \<and> analyze_user False 1000000500000 five_recent (Some ''bob'') = Inl OperationalError"
  using
    store_failure_propagates [of 1000000500000 five_recent "Some ''bob''"
          "(server 0 1000000200000 1000000500000)\<lparr>insert_ok := False\<rparr>"
          "bob_form ''Excellent! Excellent! Love it!!!''" "''Excellent! Excellent! Love it!!!''"]
    store_failure_propagates [of 1000000500000 five_recent "Some ''bob''"
          "(server 0 1000000200000 1000000500000)\<lparr>select_ok := False\<rparr>"
          "bob_form ''Excellent! Excellent! Love it!!!''" "''Excellent! Excellent! Love it!!!''"]
  by (simp add: server_def bob_form_def)

subsection \<open>The review just stored and the count\<close>

text \<open>
  The INSERT runs before the SELECT, so the row just stored is in the table that
  \<open>analyze_user\<close> reads. It is counted when its timestamp passes the WHERE clause.
\<close>

lemma own_review_counted_when_stamp_in_window:
  assumes "insert_ok e" and "form_user_id frm = Some u"
    and "strftime (env_now e - timedelta_hours 1) \<le> env_current_timestamp e"
  shows "count_rows (fst (submit_review e frm db)) (Some u) (strftime (env_now e - timedelta_hours 1))
         = count_rows db (Some u) (strftime (env_now e - timedelta_hours 1)) + 1"
  using assms by (simp add: fst_submit_review count_rows_append sql_eq_def)

text \<open>
  The timestamp is in the window when the server's local time is UTC and less than an
  hour passes between the INSERT and the SELECT.
\<close>

lemma stamp_in_window_on_utc_server:
  assumes "utc_insert \<le> utc_query" and "utc_query < utc_insert + timedelta_hours 1"
  shows "strftime (datetime_now 0 utc_query - timedelta_hours 1) \<le> sqlite_current_timestamp utc_insert"
proof -
  have "utc_query - 3600000000 \<le> utc_insert" using assms by (simp add: timedelta_hours_def)
  then have "(utc_query - 3600000000) div 1000000 \<le> utc_insert div 1000000"
    by (rule zdiv_mono1) simp
  then show ?thesis
    by (simp add: strftime_def datetime_now_def sqlite_current_timestamp_def timedelta_hours_def)
qed

text \<open>
  Claim C7 fails where the local time of the server is more than an hour ahead of
  UTC. CURRENT_TIMESTAMP stamps the row with the UTC time, \<open>datetime.datetime.now()\<close>
  is the local time: on a server two hours ahead of UTC the bound of the WHERE clause
  is an hour after the timestamp of the row just stored. The first review of bob is
  in the table and the count is 0; and his sixth review in a minute, which the
  docstring of \<open>analyze_user\<close> penalises, gets the penalty 0.
\<close>

theorem own_review_not_counted_ahead_of_utc:
  "fst (submit_review (server 7200 1000000200000 1000000500000)
          (bob_form ''Works as expected, arrived on time, good value.'') []) =
     [\<lparr>review_id = 1, user_id = Some ''bob'',
       review_text = Some ''Works as expected, arrived on time, good value.'',
       timestamp = 1000000\<rparr>]
   \<and> strftime (env_now (server 7200 1000000200000 1000000500000) - timedelta_hours 1) = 1003600
   \<and> count_rows
        (fst (submit_review (server 7200 1000000200000 1000000500000)
                (bob_form ''Works as expected, arrived on time, good value.'') []))
        (Some ''bob'')
        (strftime (env_now (server 7200 1000000200000 1000000500000) - timedelta_hours 1)) = 0
   \<and> snd (submit_review (server 7200 1000000200000 1000000500000)
          (bob_form ''Works as expected, arrived on time, good value.'') five_recent) =
       Inr \<lparr>analysis = \<lparr>generic_phrase_count = 0, exclamation_count = 0, word_count = 8,
                        sentiment = 0, credibility_score = 10\<rparr>,
            user_penalty = 0, overall_score = 10, verdict = False\<rparr>"
  using run_sixth_ahead_of_utc
  by (simp add: fst_submit_review server_def bob_form_def next_id_def sql_eq_def
      strftime_def datetime_now_def sqlite_current_timestamp_def timedelta_hours_def)

end
